theory Spec2Isabelle
  imports Main
begin

section \<open>A file-sharing server: the request handlers of server.js\<close>

text \<open>
  The server keeps two things on disk: the document \<^verbatim>\<open>files.json\<close>, meant to hold an
  array of file records, and the directory \<^verbatim>\<open>uploads\<close> with one blob per upload. Every
  handler is modelled as a function from the state of the disk (and what the request
  carries, and what the file system does on this call) to the response and the state of
  the disk afterwards. A JavaScript exception is the \<open>Inl\<close> of a sum;
  \<^verbatim>\<open>try\<close>/\<^verbatim>\<open>catch\<close> is a case distinction on it.
\<close>

subsection \<open>Values supplied by clients\<close>

text \<open>
  The author fields of a record and the \<^verbatim>\<open>userId\<close> of a delete request are whatever
  JSON the client sent. \<open>JUndefined\<close> is what reading a missing property gives.
  \<open>JNum\<close> carries an integer-valued number; \<open>JObj\<close> carries the own properties
  of a parsed object, each key once.
\<close>

datatype jsval =
    JUndefined
  | JNull
  | JBool bool
  | JNum int
  | JStr string
  | JArr "jsval list"
  | JObj "(string \<times> jsval) list"

text \<open>
  \<^verbatim>\<open>a === b\<close>. Primitives are compared by value. Arrays and objects are compared
  by reference, and the two sides compared by the server always come from two different
  parses (the metadata document and the request body), so they are never the same object.
\<close>

definition strict_eq :: "jsval \<Rightarrow> jsval \<Rightarrow> bool" where
  "strict_eq a b = (case a of JArr xs \<Rightarrow> False | JObj ps \<Rightarrow> False | _ \<Rightarrow> a = b)"

datatype js_error = SyntaxError | TypeError | SystemError | MulterError string

definition try_bind :: "js_error + 'a \<Rightarrow> ('a \<Rightarrow> js_error + 'b) \<Rightarrow> js_error + 'b" where
  "try_bind m f = (case m of Inl error \<Rightarrow> Inl error | Inr x \<Rightarrow> f x)"

text \<open>
  \<^verbatim>\<open>user.name\<close>, \<^verbatim>\<open>user.id\<close>, \<^verbatim>\<open>user.color\<close>: reading a property of
  \<^verbatim>\<open>null\<close> throws a TypeError; on an object it is the own property or
  \<^verbatim>\<open>undefined\<close>; on any other value these three keys are \<^verbatim>\<open>undefined\<close>.
\<close>

definition get_prop :: "jsval \<Rightarrow> string \<Rightarrow> js_error + jsval" where
  "get_prop v k =
     (case v of
        JUndefined \<Rightarrow> Inl TypeError
      | JNull \<Rightarrow> Inl TypeError
      | JObj ps \<Rightarrow> Inr (case map_of ps k of None \<Rightarrow> JUndefined | Some x \<Rightarrow> x)
      | _ \<Rightarrow> Inr JUndefined)"

text \<open>
  A text is represented by what \<^verbatim>\<open>JSON.parse\<close> makes of it: a SyntaxError, or the
  value it denotes. \<^verbatim>\<open>JSON.stringify\<close> produces the text that denotes its argument.
\<close>

datatype 'a json_text = NotJson | Json 'a

definition JSON_parse :: "'a json_text \<Rightarrow> js_error + 'a" where
  "JSON_parse txt = (case txt of NotJson \<Rightarrow> Inl SyntaxError | Json v \<Rightarrow> Inr v)"

definition JSON_stringify :: "'a \<Rightarrow> 'a json_text" where
  "JSON_stringify v = Json v"

text \<open>
  A form field of the multipart body is a text, or \<^verbatim>\<open>undefined\<close> when the request
  has no such field; \<^verbatim>\<open>JSON.parse(undefined)\<close> throws a SyntaxError.
\<close>

definition JSON_parse_field :: "'a json_text option \<Rightarrow> js_error + 'a" where
  "JSON_parse_field fld = (case fld of None \<Rightarrow> Inl SyntaxError | Some txt \<Rightarrow> JSON_parse txt)"

subsection \<open>The data model\<close>

text \<open>
  The object built at lines 82-93. The fields \<^verbatim>\<open>id\<close>, \<^verbatim>\<open>name\<close>, \<^verbatim>\<open>size\<close> and
  \<^verbatim>\<open>type\<close> carry a suffix here.
\<close>

record FileRecord =
  id_r :: string
  name_r :: string
  size_r :: nat
  type_r :: string
  uploadDate :: string
  author :: jsval
  authorId :: jsval
  authorColor :: jsval
  filename :: string
  path :: string

text \<open>
  \<^verbatim>\<open>req.file\<close>, as the disk storage of the upload middleware (lines 15-34) hands it to
  the handler: by then the blob is in the uploads directory under \<open>filename_f\<close>,
  \<open>path_f\<close> is the uploads directory joined with \<open>filename_f\<close>, and \<open>size_f\<close> is
  the number of bytes written. A file over the size limit never reaches the handler:
  the middleware raises \<open>MulterError ''LIMIT_FILE_SIZE''\<close> instead.
\<close>

record multer_file =
  originalname :: string
  mimetype :: string
  size_f :: nat
  filename_f :: string
  path_f :: string

subsection \<open>The disk\<close>

text \<open>
  What the document denotes when it parses: an array of file records, which is what
  \<open>writeFiles\<close> stores, or a JSON value that is not an array (\<^verbatim>\<open>null\<close>, a boolean, a
  number, a string, an object such as \<^verbatim>\<open>{"a":1}\<close>), which nothing in the server rules
  out. The elements of an array are file records here; an array with other elements is
  not represented.
\<close>

datatype non_array =
    NNull
  | NBool bool
  | NNum int
  | NStr string
  | NObj "(string \<times> jsval) list"

datatype files_value = FileArray "FileRecord list" | NonArray non_array

text \<open>
  \<^verbatim>\<open>files.push(...)\<close>, \<^verbatim>\<open>files.find(...)\<close>, \<^verbatim>\<open>files.findIndex(...)\<close>: on an array the
  method runs on its elements; a value that is not an array has no such method (and
  \<^verbatim>\<open>null\<close> has no properties), so the call throws a TypeError.
\<close>

definition array_receiver :: "files_value \<Rightarrow> js_error + FileRecord list" where
  "array_receiver v = (case v of FileArray files \<Rightarrow> Inr files | NonArray x \<Rightarrow> Inl TypeError)"

text \<open>
  \<^verbatim>\<open>files.json\<close> is absent, or present but not readable, or has a content. The uploads
  directory maps the name of an entry to its bytes;
  \<^verbatim>\<open>path.join(__dirname, 'uploads', n)\<close> addresses the entry \<open>n\<close>.
\<close>

datatype db_file = Absent | Unreadable | Content "files_value json_text"

type_synonym blob = string

record server_state =
  files_json :: db_file
  uploads :: "string \<rightharpoonup> blob"

definition existsSync_db :: "server_state \<Rightarrow> bool" where
  "existsSync_db s = (case files_json s of Absent \<Rightarrow> False | _ \<Rightarrow> True)"

definition readFileSync :: "server_state \<Rightarrow> js_error + files_value json_text" where
  "readFileSync s =
     (case files_json s of Content txt \<Rightarrow> Inr txt | _ \<Rightarrow> Inl SystemError)"

text \<open>
  What \<^verbatim>\<open>fs.writeFileSync\<close> does on this call is given by the environment: it
  writes, or it throws and leaves the document in some state.
\<close>

datatype write_outcome = Written | WriteThrows db_file

definition writeFileSync ::
  "write_outcome \<Rightarrow> files_value json_text \<Rightarrow> server_state \<Rightarrow> js_error option \<times> server_state" where
  "writeFileSync w txt s =
     (case w of
        Written \<Rightarrow> (None, s\<lparr>files_json := Content txt\<rparr>)
      | WriteThrows d \<Rightarrow> (Some SystemError, s\<lparr>files_json := d\<rparr>))"

definition existsSync :: "server_state \<Rightarrow> string \<Rightarrow> bool" where
  "existsSync s n = (case uploads s n of None \<Rightarrow> False | Some b \<Rightarrow> True)"

text \<open>
  \<^verbatim>\<open>fs.unlinkSync\<close> throws when there is no such entry (ENOENT). On an entry that is
  there, the environment says what happens on this call: the entry is removed, or the
  call throws (EPERM, EISDIR, EBUSY) and the directory is as before.
\<close>

datatype unlink_outcome = Unlinked | UnlinkThrows

definition unlinkSync :: "unlink_outcome \<Rightarrow> string \<Rightarrow> server_state \<Rightarrow> js_error + server_state" where
  "unlinkSync u n s =
     (case uploads s n of
        None \<Rightarrow> Inl SystemError
      | Some b \<Rightarrow>
          (case u of
             Unlinked \<Rightarrow> Inr (s\<lparr>uploads := (uploads s)(n := None)\<rparr>)
           | UnlinkThrows \<Rightarrow> Inl SystemError))"

subsection \<open>The metadata store (lines 39-58)\<close>

text \<open>
  The body of the \<^verbatim>\<open>try\<close> in \<^verbatim>\<open>readFiles\<close>; \<open>None\<close> is falling through the \<^verbatim>\<open>if\<close>.
  What \<^verbatim>\<open>JSON.parse\<close> returns is returned as it is, array or not.
\<close>

definition readFiles_try :: "server_state \<Rightarrow> js_error + files_value option" where
  "readFiles_try s =
     (if existsSync_db s
      then try_bind (readFileSync s) (\<lambda>txt.
           try_bind (JSON_parse txt) (\<lambda>files. Inr (Some files)))
      else Inr None)"

definition readFiles :: "server_state \<Rightarrow> js_error + files_value" where
  "readFiles s =
     (case readFiles_try s of
        Inl error \<Rightarrow> Inr (FileArray [])
      | Inr None \<Rightarrow> Inr (FileArray [])
      | Inr (Some files) \<Rightarrow> Inr files)"

definition writeFiles :: "write_outcome \<Rightarrow> FileRecord list \<Rightarrow> server_state \<Rightarrow> bool \<times> server_state" where
  "writeFiles w files s =
     (case writeFileSync w (JSON_stringify (FileArray files)) s of
        (None, s') \<Rightarrow> (True, s')
      | (Some error, s') \<Rightarrow> (False, s'))"

subsection \<open>Responses\<close>

text \<open>
  The messages of the server are Russian string literals; each is named here by the
  line of server.js that holds it.
\<close>

datatype message =
    Msg_ServerRunning          \<comment> \<open>line 64\<close>
  | Msg_NoFileUploaded         \<comment> \<open>line 77\<close>
  | Msg_SaveInfoFailed         \<comment> \<open>line 101\<close>
  | Msg_UploadFailed           \<comment> \<open>line 105\<close>
  | Msg_FileNotFound           \<comment> \<open>lines 114 and 133\<close>
  | Msg_FileNotFoundOnServer   \<comment> \<open>line 120\<close>
  | Msg_ForeignFile            \<comment> \<open>line 140\<close>
  | Msg_FileDeleted            \<comment> \<open>line 153\<close>
  | Msg_DeleteFailed           \<comment> \<open>lines 155 and 159\<close>
  | Msg_FileTooLarge           \<comment> \<open>line 172\<close>
  | Msg_InternalError          \<comment> \<open>line 175\<close>

datatype payload =
    StatusInfo string message string   \<comment> \<open>\<^verbatim>\<open>{status, message, timestamp}\<close>\<close>
  | FileList "FileRecord list"
  | JsonValue non_array
  | FileInfo FileRecord
  | ErrorPayload message               \<comment> \<open>\<^verbatim>\<open>{error: ...}\<close>\<close>
  | MessagePayload message             \<comment> \<open>\<^verbatim>\<open>{message: ...}\<close>\<close>
  | Attachment string blob             \<comment> \<open>suggested file name, bytes\<close>

record response =
  status :: nat
  body :: payload

definition json :: "payload \<Rightarrow> response" where
  "json p = \<lparr>status = 200, body = p\<rparr>"

definition status_json :: "nat \<Rightarrow> payload \<Rightarrow> response" where
  "status_json code p = \<lparr>status = code, body = p\<rparr>"

text \<open>\<^verbatim>\<open>res.download(filePath, name)\<close> of an existing entry.\<close>

definition download :: "blob \<Rightarrow> string \<Rightarrow> response" where
  "download content nm = \<lparr>status = 200, body = Attachment nm content\<rparr>"

text \<open>\<^verbatim>\<open>res.json(files)\<close> of what \<open>readFiles\<close> returned.\<close>

definition files_payload :: "files_value \<Rightarrow> payload" where
  "files_payload v = (case v of FileArray files \<Rightarrow> FileList files | NonArray x \<Rightarrow> JsonValue x)"

text \<open>
  The error middleware (lines 169-176) and what the framework does with a handler: an
  exception that leaves the handler goes to the error middleware.
\<close>

definition error_middleware :: "js_error \<Rightarrow> response" where
  "error_middleware error =
     (case error of
        MulterError code \<Rightarrow>
          (if code = ''LIMIT_FILE_SIZE''
           then status_json 400 (ErrorPayload Msg_FileTooLarge)
           else status_json 500 (ErrorPayload Msg_InternalError))
      | _ \<Rightarrow> status_json 500 (ErrorPayload Msg_InternalError))"

definition route ::
  "server_state \<Rightarrow> js_error + response \<times> server_state \<Rightarrow> response \<times> server_state" where
  "route s r = (case r of Inl error \<Rightarrow> (error_middleware error, s) | Inr out \<Rightarrow> out)"

subsection \<open>Library functions of JavaScript\<close>

text \<open>\<^verbatim>\<open>n.toString()\<close> of a non-negative integer: its decimal digits.\<close>

definition digit :: "nat \<Rightarrow> char" where
  "digit d = ''0123456789'' ! d"

function toString :: "nat \<Rightarrow> string" where
  "toString n = (if n < 10 then [digit n] else toString (n div 10) @ [digit (n mod 10)])"
  by pat_completeness auto
termination
  by (relation "measure (\<lambda>n. n)") auto

declare toString.simps [simp del]

text \<open>
  \<^verbatim>\<open>xs.findIndex(p)\<close>: the index of the first element that satisfies \<open>p\<close>, or -1.
  \<^verbatim>\<open>xs.find(p)\<close> is \<^const>\<open>List.find\<close>, with \<open>None\<close> for \<^verbatim>\<open>undefined\<close>.
\<close>

fun findIndex_from :: "int \<Rightarrow> ('a \<Rightarrow> bool) \<Rightarrow> 'a list \<Rightarrow> int" where
  "findIndex_from k p [] = - 1"
| "findIndex_from k p (x # xs) = (if p x then k else findIndex_from (k + 1) p xs)"

definition findIndex :: "('a \<Rightarrow> bool) \<Rightarrow> 'a list \<Rightarrow> int" where
  "findIndex p xs = findIndex_from 0 p xs"

text \<open>\<^verbatim>\<open>xs.splice(i, 1)\<close> for an index \<open>i\<close> of \<open>xs\<close>: what is left in \<open>xs\<close>.\<close>

definition splice :: "nat \<Rightarrow> 'a list \<Rightarrow> 'a list" where
  "splice i xs = take i xs @ drop (Suc i) xs"

subsection \<open>GET /api/status (lines 61-67) and GET /api/files (lines 69-72)\<close>

text \<open>
  The argument of \<open>status_handler\<close> is the reading of the clock at the call,
  \<^verbatim>\<open>new Date().toISOString()\<close>.
\<close>

definition status_handler :: "string \<Rightarrow> response" where
  "status_handler toISOString = json (StatusInfo ''OK'' Msg_ServerRunning toISOString)"

definition files_handler :: "server_state \<Rightarrow> js_error + response \<times> server_state" where
  "files_handler s = try_bind (readFiles s) (\<lambda>files. Inr (json (files_payload files), s))"

definition get_files :: "server_state \<Rightarrow> response \<times> server_state" where
  "get_files s = route s (files_handler s)"

subsection \<open>POST /api/upload (lines 74-107)\<close>

text \<open>
  The two readings of the clock in the handler: \<^verbatim>\<open>Date.now()\<close> and
  \<^verbatim>\<open>new Date().toLocaleString('ru-RU')\<close>.
\<close>

record clock =
  Date_now :: nat
  toLocaleString :: string

record upload_request =
  req_file :: "multer_file option"        \<comment> \<open>\<^verbatim>\<open>req.file\<close>\<close>
  body_user :: "jsval json_text option"   \<comment> \<open>\<^verbatim>\<open>req.body.user\<close>\<close>

definition upload_try ::
  "clock \<Rightarrow> write_outcome \<Rightarrow> upload_request \<Rightarrow> server_state \<Rightarrow> js_error + response \<times> server_state" where
  "upload_try clk w req s =
     (case req_file req of
        None \<Rightarrow> Inr (status_json 400 (ErrorPayload Msg_NoFileUploaded), s)
      | Some f \<Rightarrow>
          try_bind (JSON_parse_field (body_user req)) (\<lambda>usr.
          try_bind (get_prop usr ''name'') (\<lambda>user_name.
          try_bind (get_prop usr ''id'') (\<lambda>user_id.
          try_bind (get_prop usr ''color'') (\<lambda>user_color.
            let fileInfo = \<lparr>
                  id_r = toString (Date_now clk),
                  name_r = originalname f,
                  size_r = size_f f,
                  type_r = mimetype f,
                  uploadDate = toLocaleString clk,
                  author = user_name,
                  authorId = user_id,
                  authorColor = user_color,
                  filename = filename_f f,
                  path = path_f f\<rparr>
            in
          try_bind (readFiles s) (\<lambda>files_read.
          try_bind (array_receiver files_read) (\<lambda>files.
            let files' = files @ [fileInfo] in
            (case writeFiles w files' s of
               (True, s') \<Rightarrow> Inr (json (FileInfo fileInfo), s')
             | (False, s') \<Rightarrow> Inr (status_json 500 (ErrorPayload Msg_SaveInfoFailed), s')))))))))"

text \<open>
  The \<^verbatim>\<open>catch\<close> of the handler (lines 103-106). Every step that can throw comes before
  the write, so the disk is as it was when the \<^verbatim>\<open>catch\<close> runs.
\<close>

definition upload_handler ::
  "clock \<Rightarrow> write_outcome \<Rightarrow> upload_request \<Rightarrow> server_state \<Rightarrow> response \<times> server_state" where
  "upload_handler clk w req s =
     (case upload_try clk w req s of
        Inl error \<Rightarrow> (status_json 500 (ErrorPayload Msg_UploadFailed), s)
      | Inr out \<Rightarrow> out)"

subsection \<open>GET /api/download/:id (lines 109-124)\<close>

definition download_handler :: "string \<Rightarrow> server_state \<Rightarrow> js_error + response \<times> server_state" where
  "download_handler params_id s =
     try_bind (readFiles s) (\<lambda>files_read.
     try_bind (array_receiver files_read) (\<lambda>files.
       (case List.find (\<lambda>f. id_r f = params_id) files of
          None \<Rightarrow> Inr (status_json 404 (ErrorPayload Msg_FileNotFound), s)
        | Some f \<Rightarrow>
            \<comment> \<open>\<^verbatim>\<open>filePath\<close> is the entry \<open>filename f\<close> of the uploads directory\<close>
            (case uploads s (filename f) of
               None \<Rightarrow> Inr (status_json 404 (ErrorPayload Msg_FileNotFoundOnServer), s)
             | Some content \<Rightarrow> Inr (download content (name_r f), s)))))"

definition get_download :: "string \<Rightarrow> server_state \<Rightarrow> response \<times> server_state" where
  "get_download params_id s = route s (download_handler params_id s)"

subsection \<open>DELETE /api/files/:id (lines 126-161)\<close>

text \<open>
  The request carries the route parameter and the \<^verbatim>\<open>userId\<close> property of the JSON
  body, \<open>JUndefined\<close> when the body has none.
\<close>

record delete_request =
  params_id :: string
  userId :: jsval

definition delete_try ::
  "unlink_outcome \<Rightarrow> write_outcome \<Rightarrow> delete_request \<Rightarrow> server_state
     \<Rightarrow> js_error + response \<times> server_state" where
  "delete_try u w req s =
     try_bind (readFiles s) (\<lambda>files_read.
     try_bind (array_receiver files_read) (\<lambda>files.
       let fileIndex = findIndex (\<lambda>f. id_r f = params_id req) files in
       if fileIndex = - 1
       then Inr (status_json 404 (ErrorPayload Msg_FileNotFound), s)
       else
         let f = files ! nat fileIndex in
         if \<not> strict_eq (authorId f) (userId req)
         then Inr (status_json 403 (ErrorPayload Msg_ForeignFile), s)
         else
           try_bind (if existsSync s (filename f)
                     then unlinkSync u (filename f) s
                     else Inr s) (\<lambda>s1.
           let files' = splice (nat fileIndex) files in
           (case writeFiles w files' s1 of
              (True, s2) \<Rightarrow> Inr (json (MessagePayload Msg_FileDeleted), s2)
            | (False, s2) \<Rightarrow> Inr (status_json 500 (ErrorPayload Msg_DeleteFailed), s2)))))"

text \<open>
  The \<^verbatim>\<open>catch\<close> of the handler (lines 157-160). The steps that can throw, the array
  method and \<^verbatim>\<open>fs.unlinkSync\<close>, leave the disk as it was.
\<close>

definition delete_handler ::
  "unlink_outcome \<Rightarrow> write_outcome \<Rightarrow> delete_request \<Rightarrow> server_state
     \<Rightarrow> response \<times> server_state" where
  "delete_handler u w req s =
     (case delete_try u w req s of
        Inl error \<Rightarrow> (status_json 500 (ErrorPayload Msg_DeleteFailed), s)
      | Inr out \<Rightarrow> out)"

subsection \<open>The metadata list and sample data\<close>

text \<open>
  The current metadata list is the array that \<open>readFiles\<close> returns; \<open>reads_array\<close>
  says that \<open>readFiles\<close> returns an array, which it does unless the document denotes
  a value that is not one.
\<close>

definition metadata_list :: "server_state \<Rightarrow> FileRecord list" where
  "metadata_list s = (case readFiles s of Inr (FileArray files) \<Rightarrow> files | _ \<Rightarrow> [])"

definition reads_array :: "server_state \<Rightarrow> bool" where
  "reads_array s = (case readFiles s of Inr (FileArray files) \<Rightarrow> True | _ \<Rightarrow> False)"

text \<open>
  A disk with two records that have the same id (two uploads in one millisecond), and
  an upload, for running the handlers on concrete inputs.
\<close>

definition example_record :: FileRecord where
  "example_record =
     \<lparr>id_r = ''5'', name_r = ''a.txt'', size_r = 3, type_r = ''text/plain'',
      uploadDate = ''01.01.1970, 00:00:00'', author = JStr ''ann'', authorId = JStr ''u1'',
      authorColor = JStr ''red'', filename = ''4-a.txt'', path = ''/srv/uploads/4-a.txt''\<rparr>"

definition example_duplicate :: FileRecord where
  "example_duplicate =
     \<lparr>id_r = ''5'', name_r = ''b.txt'', size_r = 2, type_r = ''text/plain'',
      uploadDate = ''01.01.1970, 00:00:00'', author = JStr ''bob'', authorId = JStr ''u2'',
      authorColor = JStr ''blue'', filename = ''5-b.txt'', path = ''/srv/uploads/5-b.txt''\<rparr>"

definition example_state :: server_state where
  "example_state =
     \<lparr>files_json = Content (Json (FileArray [example_record, example_duplicate])),
      uploads = [''4-a.txt'' \<mapsto> ''abc'', ''5-b.txt'' \<mapsto> ''de'']\<rparr>"

definition example_file :: multer_file where
  "example_file =
     \<lparr>originalname = ''c.txt'', mimetype = ''text/plain'', size_f = 1,
      filename_f = ''8-c.txt'', path_f = ''/srv/uploads/8-c.txt''\<rparr>"

definition example_clock :: clock where
  "example_clock = \<lparr>Date_now = 9, toLocaleString = ''01.01.1970, 00:00:00''\<rparr>"

section \<open>Properties\<close>

subsection \<open>Auxiliary facts\<close>

lemma try_bind_Inr [simp]: "try_bind (Inr x) f = f x"
  by (simp add: try_bind_def)

lemma try_bind_Inl [simp]: "try_bind (Inl e) f = Inl e"
  by (simp add: try_bind_def)

lemma readFiles_document:
  "readFiles s =
     Inr (case files_json s of Absent \<Rightarrow> FileArray [] | Unreadable \<Rightarrow> FileArray []
          | Content NotJson \<Rightarrow> FileArray [] | Content (Json v) \<Rightarrow> v)"
  by (simp add: readFiles_def readFiles_try_def existsSync_db_def readFileSync_def JSON_parse_def
           split: db_file.split json_text.split)

lemma metadata_list_document:
  "metadata_list s =
     (case files_json s of Content (Json (FileArray files)) \<Rightarrow> files | _ \<Rightarrow> [])"
  by (simp add: metadata_list_def readFiles_document
        split: db_file.split json_text.split files_value.split)

lemma reads_array_document:
  "reads_array s = (case files_json s of Content (Json (NonArray x)) \<Rightarrow> False | _ \<Rightarrow> True)"
  by (simp add: reads_array_def readFiles_document
        split: db_file.split json_text.split files_value.split)

lemma readFiles_metadata_list:
  "reads_array s \<Longrightarrow> readFiles s = Inr (FileArray (metadata_list s))"
  by (simp add: reads_array_document metadata_list_document readFiles_document
        split: db_file.splits json_text.splits files_value.splits)

lemma readFiles_non_array:
  "\<not> reads_array s \<Longrightarrow> \<exists>x. readFiles s = Inr (NonArray x)"
  by (simp add: reads_array_document readFiles_document
        split: db_file.splits json_text.splits files_value.splits)

lemma reads_array_nonempty: "metadata_list s = pre @ f # post \<Longrightarrow> reads_array s"
  by (simp add: reads_array_document metadata_list_document
        split: db_file.splits json_text.splits files_value.splits)

lemma readFiles_written [simp]:
  "readFiles (s\<lparr>files_json := Content (Json v)\<rparr>) = Inr v"
  by (simp add: readFiles_document)

lemma metadata_list_written [simp]:
  "metadata_list (s\<lparr>files_json := Content (Json (FileArray files))\<rparr>) = files"
  by (simp add: metadata_list_document)

lemma reads_array_written [simp]:
  "reads_array (s\<lparr>files_json := Content (Json (FileArray files))\<rparr>)"
  by (simp add: reads_array_document)

lemma writeFiles_Written:
  "writeFiles Written files s = (True, s\<lparr>files_json := Content (Json (FileArray files))\<rparr>)"
  by (simp add: writeFiles_def writeFileSync_def JSON_stringify_def)

lemma writeFiles_WriteThrows: "writeFiles (WriteThrows d) files s = (False, s\<lparr>files_json := d\<rparr>)"
  by (simp add: writeFiles_def writeFileSync_def JSON_stringify_def)

lemma findIndex_from_none:
  "\<forall>x\<in>set xs. \<not> p x \<Longrightarrow> findIndex_from k p xs = - 1"
  by (induction xs arbitrary: k) auto

lemma findIndex_from_first:
  "\<forall>x\<in>set pre. \<not> p x \<Longrightarrow> p r \<Longrightarrow> findIndex_from k p (pre @ r # post) = k + int (length pre)"
  by (induction pre arbitrary: k) auto

lemma findIndex_none: "\<forall>x\<in>set xs. \<not> p x \<Longrightarrow> findIndex p xs = - 1"
  by (simp add: findIndex_def findIndex_from_none)

lemma findIndex_first:
  "\<forall>x\<in>set pre. \<not> p x \<Longrightarrow> p r \<Longrightarrow> findIndex p (pre @ r # post) = int (length pre)"
  by (simp add: findIndex_def findIndex_from_first)

lemma find_first:
  "\<forall>x\<in>set pre. \<not> p x \<Longrightarrow> p r \<Longrightarrow> List.find p (pre @ r # post) = Some r"
  by (induction pre) auto

lemma find_none: "\<forall>x\<in>set xs. \<not> p x \<Longrightarrow> List.find p xs = None"
  by (simp add: find_None_iff)

lemma splice_first: "splice (length pre) (pre @ r # post) = pre @ post"
  by (simp add: splice_def)


text \<open>Line 145 to 147: the guard, then the removal.\<close>

lemma unlink_if_exists:
  "(if existsSync s n then unlinkSync u n s else Inr s) =
     (if uploads s n \<noteq> None \<and> u = UnlinkThrows then Inl SystemError
      else Inr (s\<lparr>uploads := (uploads s)(n := None)\<rparr>))"
proof (cases "uploads s n")
  case None
  then have "(uploads s)(n := None) = uploads s" by (simp add: fun_upd_idem_iff)
  with None show ?thesis by (simp add: existsSync_def)
next
  case (Some b)
  then show ?thesis by (cases u) (simp_all add: existsSync_def unlinkSync_def)
qed

lemma delete_handler_not_found:
  assumes "reads_array s" and "\<forall>x\<in>set (metadata_list s). id_r x \<noteq> params_id req"
  shows "delete_handler u w req s = (status_json 404 (ErrorPayload Msg_FileNotFound), s)"
proof -
  have "findIndex (\<lambda>f. id_r f = params_id req) (metadata_list s) = - 1"
    using assms(2) by (simp add: findIndex_none)
  then show ?thesis
    by (simp add: delete_handler_def delete_try_def readFiles_metadata_list [OF assms(1)]
          array_receiver_def)
qed


lemma delete_handler_first_match:
  assumes "metadata_list s = pre @ f # post"
      and "\<forall>x\<in>set pre. id_r x \<noteq> params_id req"
      and "id_r f = params_id req"
  shows "delete_handler u w req s =
     (if \<not> strict_eq (authorId f) (userId req)
      then (status_json 403 (ErrorPayload Msg_ForeignFile), s)
      else if uploads s (filename f) \<noteq> None \<and> u = UnlinkThrows
      then (status_json 500 (ErrorPayload Msg_DeleteFailed), s)
      else (case writeFiles w (pre @ post) (s\<lparr>uploads := (uploads s)(filename f := None)\<rparr>) of
              (True, s2) \<Rightarrow> (json (MessagePayload Msg_FileDeleted), s2)
            | (False, s2) \<Rightarrow> (status_json 500 (ErrorPayload Msg_DeleteFailed), s2)))"
proof -
  have rd: "readFiles s = Inr (FileArray (metadata_list s))"
    using reads_array_nonempty [OF assms(1)] by (rule readFiles_metadata_list)
  have idx: "findIndex (\<lambda>f. id_r f = params_id req) (metadata_list s) = int (length pre)"
    using assms by (simp add: findIndex_first)
  have nth: "metadata_list s ! length pre = f"
    using assms(1) by simp
  have spl: "splice (length pre) (metadata_list s) = pre @ post"
    using assms(1) by (simp add: splice_first)
  show ?thesis
    by (simp add: delete_handler_def delete_try_def rd array_receiver_def idx nth spl
          unlink_if_exists Let_def split: prod.split bool.split)
qed


subsection \<open>The metadata store\<close>

text \<open>
  C5, as stated, says that the read returns the record list or the empty sequence,
  whatever the state of the document. A document that is valid JSON but not an array,
  here \<^verbatim>\<open>{"a":1}\<close>, is returned as it is (lines 41-43 return what \<^verbatim>\<open>JSON.parse\<close>
  gives): the result is neither a record list nor the empty sequence.
\<close>

theorem readFiles_object_counterexample:
  "readFiles \<lparr>files_json = Content (Json (NonArray (NObj [(''a'', JNum 1)]))), uploads = Map.empty\<rparr>
     = Inr (NonArray (NObj [(''a'', JNum 1)]))
   \<and> readFiles \<lparr>files_json = Content (Json (NonArray (NObj [(''a'', JNum 1)]))), uploads = Map.empty\<rparr>
     \<noteq> Inr (FileArray [])"
  by (simp add: readFiles_document)

text \<open>
  C5, amended. Reading the metadata store never raises to the caller, whatever the state
  of the document. When the document is present and parses, the read returns the value
  it denotes: the stored list, in the order stored, when it holds an array of records,
  and the value itself when it holds something else. It returns the empty list when the
  document is absent, when it cannot be read and when it does not parse; in the last two
  cases the body of the \<^verbatim>\<open>try\<close> does raise, and the \<^verbatim>\<open>catch\<close> absorbs the exception.
\<close>

theorem readFiles_never_raises:
  "(\<exists>v. readFiles s = Inr v)
   \<and> readFiles (s\<lparr>files_json := Content (Json v)\<rparr>) = Inr v
   \<and> readFiles (s\<lparr>files_json := Content (Json (FileArray files))\<rparr>) = Inr (FileArray files)
   \<and> readFiles (s\<lparr>files_json := Content (Json (NonArray x))\<rparr>) = Inr (NonArray x)
   \<and> readFiles (s\<lparr>files_json := Absent\<rparr>) = Inr (FileArray [])
   \<and> readFiles (s\<lparr>files_json := Content NotJson\<rparr>) = Inr (FileArray [])
   \<and> readFiles (s\<lparr>files_json := Unreadable\<rparr>) = Inr (FileArray [])
   \<and> readFiles_try (s\<lparr>files_json := Content NotJson\<rparr>) = Inl SyntaxError
   \<and> readFiles_try (s\<lparr>files_json := Unreadable\<rparr>) = Inl SystemError"
proof -
  have "\<exists>v. readFiles s = Inr v"
    by (simp add: readFiles_document)
  moreover have "readFiles_try (s\<lparr>files_json := Content NotJson\<rparr>) = Inl SyntaxError"
    by (simp add: readFiles_try_def existsSync_db_def readFileSync_def JSON_parse_def)
  moreover have "readFiles_try (s\<lparr>files_json := Unreadable\<rparr>) = Inl SystemError"
    by (simp add: readFiles_try_def existsSync_db_def readFileSync_def)
  ultimately show ?thesis
    by (simp add: readFiles_document)
qed

theorem readFiles_never_raises_witness:
  "readFiles example_state = Inr (FileArray [example_record, example_duplicate])
   \<and> readFiles (example_state\<lparr>files_json := Content (Json (NonArray NNull))\<rparr>) = Inr (NonArray NNull)
   \<and> readFiles (example_state\<lparr>files_json := Absent\<rparr>) = Inr (FileArray [])
   \<and> readFiles (example_state\<lparr>files_json := Content NotJson\<rparr>) = Inr (FileArray [])
   \<and> readFiles (example_state\<lparr>files_json := Unreadable\<rparr>) = Inr (FileArray [])"
  using readFiles_never_raises [of example_state "FileArray [example_record, example_duplicate]"
          "[example_record, example_duplicate]" NNull]
  by (simp add: example_state_def)

subsection \<open>Upload\<close>

text \<open>
  C1. When the request carries a file and a user field that is a JSON object, the store
  holds a list, and the write of the metadata succeeds, the upload handler answers 200
  with a new record and stores the metadata list with this one record appended. The
  record has the original name, the size and the MIME type of the uploaded file, and its
  \<open>authorId\<close> is the \<^verbatim>\<open>id\<close> of the user object. A listing right after returns the
  former list followed by this record.
\<close>

theorem upload_appends_one_record:
  assumes "req_file req = Some f"
      and "body_user req = Some (Json (JObj props))"
      and "reads_array s"
  shows "\<exists>r. upload_handler clk Written req s =
               (\<lparr>status = 200, body = FileInfo r\<rparr>,
                s\<lparr>files_json := Content (Json (FileArray (metadata_list s @ [r])))\<rparr>)
           \<and> name_r r = originalname f \<and> size_r r = size_f f \<and> type_r r = mimetype f
           \<and> get_prop (JObj props) ''id'' = Inr (authorId r)
           \<and> metadata_list (snd (upload_handler clk Written req s)) = metadata_list s @ [r]
           \<and> fst (get_files (snd (upload_handler clk Written req s))) =
               \<lparr>status = 200, body = FileList (metadata_list s @ [r])\<rparr>"
proof -
  have parse: "JSON_parse_field (body_user req) = Inr (JObj props)"
    using assms(2) by (simp add: JSON_parse_field_def JSON_parse_def)
  have rd: "\<And>k. get_prop (JObj props) k =
                 Inr (case map_of props k of None \<Rightarrow> JUndefined | Some x \<Rightarrow> x)"
    by (simp add: get_prop_def)
  show ?thesis
    by (simp add: upload_handler_def upload_try_def assms(1) parse rd
          readFiles_metadata_list [OF assms(3)] array_receiver_def writeFiles_Written json_def
          Let_def get_files_def files_handler_def route_def files_payload_def)
qed

theorem upload_appends_one_record_witness:
  "\<exists>r. upload_handler example_clock Written
          \<lparr>req_file = Some example_file, body_user = Some (Json (JObj [(''id'', JStr ''u3'')]))\<rparr>
          example_state =
          (\<lparr>status = 200, body = FileInfo r\<rparr>,
           example_state\<lparr>files_json :=
              Content (Json (FileArray [example_record, example_duplicate, r]))\<rparr>)
        \<and> name_r r = ''c.txt'' \<and> size_r r = 1 \<and> type_r r = ''text/plain''
        \<and> authorId r = JStr ''u3''"
  using upload_appends_one_record [of
      "\<lparr>req_file = Some example_file, body_user = Some (Json (JObj [(''id'', JStr ''u3'')]))\<rparr>"
      example_file "[(''id'', JStr ''u3'')]" example_state example_clock]
  by (auto simp add: metadata_list_document reads_array_document example_state_def
        example_file_def get_prop_def)

subsection \<open>Reading: listing and download\<close>

lemma get_files_value: "get_files s = (fst (get_files s), s)"
  by (simp add: get_files_def files_handler_def route_def readFiles_document)

lemma get_files_response:
  "fst (get_files s) =
     json (files_payload (case files_json s of Absent \<Rightarrow> FileArray [] | Unreadable \<Rightarrow> FileArray []
          | Content NotJson \<Rightarrow> FileArray [] | Content (Json v) \<Rightarrow> v))"
  by (simp add: get_files_def files_handler_def route_def readFiles_document)

lemma get_download_not_found:
  "reads_array s \<Longrightarrow> \<forall>x\<in>set (metadata_list s). id_r x \<noteq> i \<Longrightarrow>
   get_download i s = (status_json 404 (ErrorPayload Msg_FileNotFound), s)"
  by (simp add: get_download_def download_handler_def route_def readFiles_metadata_list
        array_receiver_def find_none)

lemma get_download_non_array:
  assumes "\<not> reads_array s"
  shows "get_download i s = (status_json 500 (ErrorPayload Msg_InternalError), s)"
  using readFiles_non_array [OF assms]
  by (auto simp add: get_download_def download_handler_def route_def array_receiver_def
        error_middleware_def)

lemma get_download_found:
  assumes "List.find (\<lambda>f. id_r f = i) (metadata_list s) = Some f"
  shows "get_download i s =
     (case uploads s (filename f) of
        None \<Rightarrow> (status_json 404 (ErrorPayload Msg_FileNotFoundOnServer), s)
      | Some content \<Rightarrow> (download content (name_r f), s))"
proof -
  from assms have "metadata_list s \<noteq> []" by auto
  then obtain x xs where "metadata_list s = [] @ x # xs"
    by (cases "metadata_list s") auto
  then have "reads_array s" by (rule reads_array_nonempty)
  then show ?thesis
    using assms
    by (simp add: get_download_def download_handler_def route_def readFiles_metadata_list
          array_receiver_def split: option.split)
qed

text \<open>
  C2. When the store holds a list, a download of the identifier \<open>i\<close> is answered with
  404 when no record of the current metadata list has this id; with 404 and a different
  message when the id resolves to a record (the first one with this id, as \<^verbatim>\<open>find\<close>
  returns it) whose blob is not in the uploads directory; and otherwise with 200 and the
  bytes of the blob, the name of the record being the suggested file name. The place of
  the blob is the entry of the uploads directory that the record names in
  \<open>filename\<close>, which is where \<open>path\<close> pointed when the record was made.
\<close>

theorem download_responses:
  "(reads_array s \<and> (\<forall>x\<in>set (metadata_list s). id_r x \<noteq> i) \<longrightarrow>
       fst (get_download i s) = \<lparr>status = 404, body = ErrorPayload Msg_FileNotFound\<rparr>)
   \<and> (\<forall>f. List.find (\<lambda>f. id_r f = i) (metadata_list s) = Some f \<longrightarrow>
         (uploads s (filename f) = None \<longrightarrow>
            fst (get_download i s) = \<lparr>status = 404, body = ErrorPayload Msg_FileNotFoundOnServer\<rparr>)
       \<and> (\<forall>content. uploads s (filename f) = Some content \<longrightarrow>
            fst (get_download i s) = \<lparr>status = 200, body = Attachment (name_r f) content\<rparr>))
   \<and> Msg_FileNotFoundOnServer \<noteq> Msg_FileNotFound"
  by (simp add: get_download_not_found get_download_found status_json_def download_def)

theorem download_responses_witness:
  "fst (get_download ''7'' example_state) = \<lparr>status = 404, body = ErrorPayload Msg_FileNotFound\<rparr>
   \<and> fst (get_download ''5'' (example_state\<lparr>uploads := Map.empty\<rparr>)) =
       \<lparr>status = 404, body = ErrorPayload Msg_FileNotFoundOnServer\<rparr>
   \<and> fst (get_download ''5'' example_state) = \<lparr>status = 200, body = Attachment ''a.txt'' ''abc''\<rparr>"
  using download_responses [of example_state "''7''"]
        download_responses [of "example_state\<lparr>uploads := Map.empty\<rparr>" "''5''"]
        download_responses [of example_state "''5''"]
  by (simp add: metadata_list_document reads_array_document example_state_def example_record_def
        example_duplicate_def)

text \<open>
  C9. Neither the listing nor a download changes the disk: the metadata document and the
  uploads directory after the request are those before it.
\<close>

theorem reads_leave_disk_unchanged:
  "snd (get_files s) = s \<and> snd (get_download i s) = s"
proof -
  have "snd (get_download i s) = s"
  proof (cases "reads_array s")
    case False
    then show ?thesis by (simp add: get_download_non_array)
  next
    case True
    show ?thesis
    proof (cases "List.find (\<lambda>f. id_r f = i) (metadata_list s)")
      case None
      then have "\<forall>x\<in>set (metadata_list s). id_r x \<noteq> i"
        by (simp add: find_None_iff)
      with True show ?thesis by (simp add: get_download_not_found)
    next
      case (Some f)
      then show ?thesis by (simp add: get_download_found split: option.split)
    qed
  qed
  moreover have "snd (get_files s) = s"
    using get_files_value [of s] by (metis snd_conv)
  ultimately show ?thesis by simp
qed

theorem reads_leave_disk_unchanged_witness:
  "snd (get_files example_state) = example_state \<and> snd (get_download ''5'' example_state) = example_state"
  using reads_leave_disk_unchanged [of example_state "''5''"] by simp

subsection \<open>Repeated reads\<close>

text \<open>
  C6, as stated, says that two calls of the status route return identical results. The
  result carries the reading of the clock at the call (line 65), so two calls at
  different instants differ.
\<close>

theorem status_timestamp_counterexample:
  "status_handler ''1970-01-01T00:00:00.000Z'' \<noteq> status_handler ''1970-01-01T00:00:00.001Z''"
  by (simp add: status_handler_def json_def)

text \<open>
  C6, amended. Every call of the status route returns 200 with the same status and
  message and with the clock reading of the call as timestamp, so that two calls return
  the same result exactly when their clock readings are the same. A listing repeated
  with no write in between returns the same result.
\<close>

theorem status_and_listing_repeated:
  "status_handler t = \<lparr>status = 200, body = StatusInfo ''OK'' Msg_ServerRunning t\<rparr>
   \<and> (status_handler t1 = status_handler t2) = (t1 = t2)
   \<and> get_files (snd (get_files s)) = get_files s"
proof -
  have "snd (get_files s) = s"
    using get_files_value [of s] by (metis snd_conv)
  then show ?thesis
    by (auto simp add: status_handler_def json_def)
qed

theorem status_and_listing_repeated_witness:
  "status_handler ''1970-01-01T00:00:00.000Z'' =
     \<lparr>status = 200, body = StatusInfo ''OK'' Msg_ServerRunning ''1970-01-01T00:00:00.000Z''\<rparr>
   \<and> get_files (snd (get_files example_state)) = get_files example_state"
  using status_and_listing_repeated [of "''1970-01-01T00:00:00.000Z''"
          "''1970-01-01T00:00:00.000Z''" "''1970-01-01T00:00:00.001Z''" example_state]
  by simp

subsection \<open>Rejected uploads\<close>

lemma upload_handler_no_file:
  "req_file req = None \<Longrightarrow>
   upload_handler clk w req s = (status_json 400 (ErrorPayload Msg_NoFileUploaded), s)"
  by (simp add: upload_handler_def upload_try_def)

text \<open>
  C7, as stated, says that every upload whose user field is not valid JSON is answered
  with 500. The test for the file comes first (line 76): a request with no file is
  answered with 400 without its user field being parsed.
\<close>

theorem upload_no_file_counterexample:
  "body_user \<lparr>req_file = None, body_user = Some NotJson\<rparr> = Some NotJson
   \<and> status (fst (upload_handler example_clock Written
                   \<lparr>req_file = None, body_user = Some NotJson\<rparr> example_state)) = 400
   \<and> status (fst (upload_handler example_clock Written
                   \<lparr>req_file = None, body_user = Some NotJson\<rparr> example_state)) \<noteq> 500"
  by (simp add: upload_handler_no_file status_json_def)

text \<open>
  C7, amended. An upload with no file is answered with 400 and an error payload. An
  upload with a file whose user field is not valid JSON (or is missing) is answered with
  500 by the \<^verbatim>\<open>catch\<close> of the handler. In both cases the disk, and so the metadata list,
  is as before.
\<close>

theorem upload_rejections:
  "(req_file req = None \<longrightarrow>
      upload_handler clk w req s = (\<lparr>status = 400, body = ErrorPayload Msg_NoFileUploaded\<rparr>, s))
   \<and> (req_file req \<noteq> None \<and> (body_user req = Some NotJson \<or> body_user req = None) \<longrightarrow>
      upload_handler clk w req s = (\<lparr>status = 500, body = ErrorPayload Msg_UploadFailed\<rparr>, s))"
  by (auto simp add: upload_handler_no_file status_json_def upload_handler_def upload_try_def
        JSON_parse_field_def JSON_parse_def)

theorem upload_rejections_witness:
  "upload_handler example_clock Written \<lparr>req_file = None, body_user = Some NotJson\<rparr> example_state =
     (\<lparr>status = 400, body = ErrorPayload Msg_NoFileUploaded\<rparr>, example_state)
   \<and> upload_handler example_clock Written
        \<lparr>req_file = Some example_file, body_user = Some NotJson\<rparr> example_state =
     (\<lparr>status = 500, body = ErrorPayload Msg_UploadFailed\<rparr>, example_state)"
  using upload_rejections [of "\<lparr>req_file = None, body_user = Some NotJson\<rparr>"
          example_clock Written example_state]
        upload_rejections [of "\<lparr>req_file = Some example_file, body_user = Some NotJson\<rparr>"
          example_clock Written example_state]
  by simp


subsection \<open>Delete\<close>

text \<open>
  C3, as stated, says that every delete by the author removes the blob and then
  rewrites the list. When \<^verbatim>\<open>fs.unlinkSync\<close> throws on the blob, the \<^verbatim>\<open>catch\<close> of lines
  157-160 answers 500 and the list is not rewritten, though the write would have
  succeeded: the record and the blob are both still there.
\<close>

theorem delete_unlink_fails_counterexample:
  "id_r example_record = params_id \<lparr>params_id = ''5'', userId = JStr ''u1''\<rparr>
   \<and> strict_eq (authorId example_record) (userId \<lparr>params_id = ''5'', userId = JStr ''u1''\<rparr>)
   \<and> metadata_list example_state = [example_record, example_duplicate]
   \<and> delete_handler UnlinkThrows Written \<lparr>params_id = ''5'', userId = JStr ''u1''\<rparr> example_state =
       (\<lparr>status = 500, body = ErrorPayload Msg_DeleteFailed\<rparr>, example_state)"
  using delete_handler_first_match [of example_state "[]" example_record "[example_duplicate]"
          "\<lparr>params_id = ''5'', userId = JStr ''u1''\<rparr>" UnlinkThrows Written]
  by (simp add: metadata_list_document example_state_def example_record_def strict_eq_def
        status_json_def)

text \<open>
  C3, amended. Let the id of a delete request resolve to the record \<open>f\<close> (the first one
  of the list with this id) and let the \<^verbatim>\<open>userId\<close> of the request be strictly equal to
  the \<open>authorId\<close> of \<open>f\<close>. The handler first removes the blob of \<open>f\<close> from the
  uploads directory if it is there; a missing blob is passed over by the test of line
  145, without which the removal would throw. If the removal of the blob throws, the
  answer is 500 and the disk is unchanged: nothing is written. Otherwise the handler
  then writes the list without \<open>f\<close>: when the write succeeds the answer is 200 with the
  confirmation, and when it fails the answer is 500 and the blob is gone.
\<close>

theorem delete_own_file:
  assumes "metadata_list s = pre @ f # post"
      and "\<forall>x\<in>set pre. id_r x \<noteq> params_id req"
      and "id_r f = params_id req"
      and "strict_eq (authorId f) (userId req)"
  shows "(uploads s (filename f) = None \<or> u = Unlinked \<longrightarrow>
            delete_handler u Written req s =
              (\<lparr>status = 200, body = MessagePayload Msg_FileDeleted\<rparr>,
               s\<lparr>uploads := (uploads s)(filename f := None),
                 files_json := Content (Json (FileArray (pre @ post)))\<rparr>)
          \<and> delete_handler u (WriteThrows d) req s =
              (\<lparr>status = 500, body = ErrorPayload Msg_DeleteFailed\<rparr>,
               s\<lparr>uploads := (uploads s)(filename f := None), files_json := d\<rparr>))
         \<and> (uploads s (filename f) = None \<longrightarrow>
              unlinkSync u (filename f) s = Inl SystemError
            \<and> uploads (snd (delete_handler u Written req s)) = uploads s)
         \<and> (uploads s (filename f) \<noteq> None \<longrightarrow>
              delete_handler UnlinkThrows w req s =
                (\<lparr>status = 500, body = ErrorPayload Msg_DeleteFailed\<rparr>, s))"
proof -
  note h = delete_handler_first_match [OF assms(1-3)]
  have ok: "delete_handler u Written req s =
              (\<lparr>status = 200, body = MessagePayload Msg_FileDeleted\<rparr>,
               s\<lparr>uploads := (uploads s)(filename f := None),
                 files_json := Content (Json (FileArray (pre @ post)))\<rparr>)"
    if "uploads s (filename f) = None \<or> u = Unlinked"
    using h [of u Written] assms(4) that by (auto simp add: writeFiles_Written json_def)
  have wf: "delete_handler u (WriteThrows d) req s =
              (\<lparr>status = 500, body = ErrorPayload Msg_DeleteFailed\<rparr>,
               s\<lparr>uploads := (uploads s)(filename f := None), files_json := d\<rparr>)"
    if "uploads s (filename f) = None \<or> u = Unlinked"
    using h [of u "WriteThrows d"] assms(4) that
    by (auto simp add: writeFiles_WriteThrows status_json_def)
  have missing: "unlinkSync u (filename f) s = Inl SystemError
                 \<and> uploads (snd (delete_handler u Written req s)) = uploads s"
    if "uploads s (filename f) = None"
    using ok that by (simp add: unlinkSync_def fun_upd_idem_iff)
  have uf: "delete_handler UnlinkThrows w req s =
              (\<lparr>status = 500, body = ErrorPayload Msg_DeleteFailed\<rparr>, s)"
    if "uploads s (filename f) \<noteq> None"
    using h [of UnlinkThrows w] assms(4) that by (simp add: status_json_def)
  show ?thesis
    using ok wf missing uf by blast
qed

text \<open>
  On the sample disk: a delete of a record whose blob is there, under each outcome of the
  file system, and then, on a disk where the blob \<^verbatim>\<open>4-a.txt\<close> is missing, a delete
  of the record whose blob is not there.
\<close>

theorem delete_own_file_witness:
  "delete_handler Unlinked Written \<lparr>params_id = ''5'', userId = JStr ''u1''\<rparr> example_state =
     (\<lparr>status = 200, body = MessagePayload Msg_FileDeleted\<rparr>,
      \<lparr>files_json = Content (Json (FileArray [example_duplicate])),
       uploads = [''5-b.txt'' \<mapsto> ''de'']\<rparr>)
   \<and> delete_handler Unlinked (WriteThrows Unreadable) \<lparr>params_id = ''5'', userId = JStr ''u1''\<rparr>
        example_state =
     (\<lparr>status = 500, body = ErrorPayload Msg_DeleteFailed\<rparr>,
      \<lparr>files_json = Unreadable, uploads = [''5-b.txt'' \<mapsto> ''de'']\<rparr>)
   \<and> delete_handler UnlinkThrows Written \<lparr>params_id = ''5'', userId = JStr ''u1''\<rparr> example_state =
     (\<lparr>status = 500, body = ErrorPayload Msg_DeleteFailed\<rparr>, example_state)
   \<and> delete_handler UnlinkThrows Written \<lparr>params_id = ''5'', userId = JStr ''u1''\<rparr>
        (example_state\<lparr>uploads := [''5-b.txt'' \<mapsto> ''de'']\<rparr>) =
     (\<lparr>status = 200, body = MessagePayload Msg_FileDeleted\<rparr>,
      \<lparr>files_json = Content (Json (FileArray [example_duplicate])),
       uploads = [''5-b.txt'' \<mapsto> ''de'']\<rparr>)
   \<and> unlinkSync Unlinked ''4-a.txt'' (example_state\<lparr>uploads := [''5-b.txt'' \<mapsto> ''de'']\<rparr>)
       = Inl SystemError"
proof -
  have up: "[''4-a.txt'' \<mapsto> ''abc'', ''5-b.txt'' \<mapsto> ''de''](''4-a.txt'' := None)
              = [''5-b.txt'' \<mapsto> ''de'']"
    by (rule ext) simp
  have up': "[''5-b.txt'' \<mapsto> ''de''](''4-a.txt'' := None) = [''5-b.txt'' \<mapsto> ''de'']"
    by (rule ext) simp
  show ?thesis
    using delete_own_file [of example_state "[]" example_record "[example_duplicate]"
            "\<lparr>params_id = ''5'', userId = JStr ''u1''\<rparr>" Unlinked Unreadable Written]
          delete_own_file [of "example_state\<lparr>uploads := [''5-b.txt'' \<mapsto> ''de'']\<rparr>" "[]"
            example_record "[example_duplicate]"
            "\<lparr>params_id = ''5'', userId = JStr ''u1''\<rparr>" UnlinkThrows Unreadable Written]
          delete_own_file [of "example_state\<lparr>uploads := [''5-b.txt'' \<mapsto> ''de'']\<rparr>" "[]"
            example_record "[example_duplicate]"
            "\<lparr>params_id = ''5'', userId = JStr ''u1''\<rparr>" Unlinked Unreadable Written]
    by (simp add: metadata_list_document example_state_def example_record_def strict_eq_def
          up up')
qed

text \<open>
  C4. A delete whose id resolves to a record with an \<open>authorId\<close> that is not strictly
  equal to the \<^verbatim>\<open>userId\<close> of the request is answered with 403, and, when the store
  holds a list, a delete whose id is the id of no record is answered with 404. In both
  cases the disk is unchanged: the metadata document and the uploads directory are as
  before, whatever the file system would have done.
\<close>

theorem delete_refused_leaves_state:
  "(reads_array s \<and> (\<forall>x\<in>set (metadata_list s). id_r x \<noteq> params_id req) \<longrightarrow>
      delete_handler u w req s = (\<lparr>status = 404, body = ErrorPayload Msg_FileNotFound\<rparr>, s))
   \<and> (metadata_list s = pre @ f # post \<and> (\<forall>x\<in>set pre. id_r x \<noteq> params_id req)
        \<and> id_r f = params_id req \<and> \<not> strict_eq (authorId f) (userId req) \<longrightarrow>
      delete_handler u w req s = (\<lparr>status = 403, body = ErrorPayload Msg_ForeignFile\<rparr>, s))"
  using delete_handler_first_match [of s pre f post req u w]
  by (simp add: delete_handler_not_found status_json_def)

theorem delete_refused_leaves_state_witness:
  "delete_handler Unlinked Written \<lparr>params_id = ''7'', userId = JStr ''u1''\<rparr> example_state =
     (\<lparr>status = 404, body = ErrorPayload Msg_FileNotFound\<rparr>, example_state)
   \<and> delete_handler Unlinked Written \<lparr>params_id = ''5'', userId = JStr ''u2''\<rparr> example_state =
     (\<lparr>status = 403, body = ErrorPayload Msg_ForeignFile\<rparr>, example_state)"
  using delete_refused_leaves_state [of example_state "\<lparr>params_id = ''7'', userId = JStr ''u1''\<rparr>"
          Unlinked Written "[]" example_record "[example_duplicate]"]
        delete_refused_leaves_state [of example_state "\<lparr>params_id = ''5'', userId = JStr ''u2''\<rparr>"
          Unlinked Written "[]" example_record "[example_duplicate]"]
  by (simp add: metadata_list_document reads_array_document example_state_def example_record_def
        example_duplicate_def strict_eq_def)





subsection \<open>Records with the same id\<close>

text \<open>
  C10. When the metadata list has several records with the id \<open>i\<close>, and \<open>f\<close> is
  the first of them, a download of \<open>i\<close> serves the blob and the name of \<open>f\<close>, and a
  delete of \<open>i\<close> is authorised against the \<open>authorId\<close> of \<open>f\<close> and removes \<open>f\<close>
  alone: the records after \<open>f\<close>, among them the others with the id \<open>i\<close>, stay, and
  whatever the file system does no blob but that of \<open>f\<close> is touched.
\<close>

theorem duplicate_ids_first_match:
  assumes "metadata_list s = pre @ f # post"
      and "\<forall>x\<in>set pre. id_r x \<noteq> i"
      and "id_r f = i"
      and "\<exists>g\<in>set post. id_r g = i"
  shows "fst (get_download i s) =
           (case uploads s (filename f) of
              None \<Rightarrow> \<lparr>status = 404, body = ErrorPayload Msg_FileNotFoundOnServer\<rparr>
            | Some content \<Rightarrow> \<lparr>status = 200, body = Attachment (name_r f) content\<rparr>)
         \<and> (params_id req = i \<and> \<not> strict_eq (authorId f) (userId req) \<longrightarrow>
              delete_handler u w req s = (\<lparr>status = 403, body = ErrorPayload Msg_ForeignFile\<rparr>, s))
         \<and> (params_id req = i \<and> strict_eq (authorId f) (userId req) \<longrightarrow>
              delete_handler Unlinked Written req s =
                (\<lparr>status = 200, body = MessagePayload Msg_FileDeleted\<rparr>,
                 s\<lparr>uploads := (uploads s)(filename f := None),
                   files_json := Content (Json (FileArray (pre @ post)))\<rparr>)
              \<and> (\<exists>g\<in>set (metadata_list (snd (delete_handler Unlinked Written req s))). id_r g = i))
         \<and> (params_id req = i \<longrightarrow>
              (\<forall>n. n \<noteq> filename f \<longrightarrow> uploads (snd (delete_handler u w req s)) n = uploads s n))"
proof -
  have "List.find (\<lambda>x. id_r x = i) (metadata_list s) = Some f"
    using assms(1-3) by (simp add: find_first)
  then have dl: "fst (get_download i s) =
      (case uploads s (filename f) of
         None \<Rightarrow> \<lparr>status = 404, body = ErrorPayload Msg_FileNotFoundOnServer\<rparr>
       | Some content \<Rightarrow> \<lparr>status = 200, body = Attachment (name_r f) content\<rparr>)"
    by (simp add: get_download_found status_json_def download_def split: option.split)
  have refuse: "delete_handler u w req s = (\<lparr>status = 403, body = ErrorPayload Msg_ForeignFile\<rparr>, s)"
    if "params_id req = i" "\<not> strict_eq (authorId f) (userId req)"
    using delete_handler_first_match [of s pre f post req u w] assms(1-3) that
    by (simp add: status_json_def)
  have remove: "delete_handler Unlinked Written req s =
      (\<lparr>status = 200, body = MessagePayload Msg_FileDeleted\<rparr>,
       s\<lparr>uploads := (uploads s)(filename f := None),
         files_json := Content (Json (FileArray (pre @ post)))\<rparr>)"
    if "params_id req = i" "strict_eq (authorId f) (userId req)"
    using delete_handler_first_match [of s pre f post req Unlinked Written] assms(1-3) that
    by (simp add: writeFiles_Written json_def)
  have left: "\<exists>g\<in>set (metadata_list (snd (delete_handler Unlinked Written req s))). id_r g = i"
    if "params_id req = i" "strict_eq (authorId f) (userId req)"
    using remove [OF that] assms(4) by (auto simp add: metadata_list_document)
  have others: "\<forall>n. n \<noteq> filename f \<longrightarrow> uploads (snd (delete_handler u w req s)) n = uploads s n"
    if "params_id req = i"
    using delete_handler_first_match [of s pre f post req u w] assms(1-3) that
    by (cases w) (auto simp add: writeFiles_Written writeFiles_WriteThrows)
  show ?thesis
    using dl refuse remove left others by blast
qed

theorem duplicate_ids_first_match_witness:
  "fst (get_download ''5'' example_state) = \<lparr>status = 200, body = Attachment ''a.txt'' ''abc''\<rparr>
   \<and> delete_handler Unlinked Written \<lparr>params_id = ''5'', userId = JStr ''u2''\<rparr> example_state =
       (\<lparr>status = 403, body = ErrorPayload Msg_ForeignFile\<rparr>, example_state)
   \<and> metadata_list (snd (delete_handler Unlinked Written \<lparr>params_id = ''5'', userId = JStr ''u1''\<rparr>
                            example_state))
       = [example_duplicate]"
  using duplicate_ids_first_match [of example_state "[]" example_record "[example_duplicate]" "''5''"
          "\<lparr>params_id = ''5'', userId = JStr ''u2''\<rparr>" Unlinked Written]
        duplicate_ids_first_match [of example_state "[]" example_record "[example_duplicate]" "''5''"
          "\<lparr>params_id = ''5'', userId = JStr ''u1''\<rparr>" Unlinked Written]
  by (simp add: metadata_list_document example_state_def example_record_def example_duplicate_def
        strict_eq_def)

end
